theory Spec2Isabelle
  imports Complex_Main
begin

section \<open>Command-line parsing: \<open>str2bool\<close>\<close>

text \<open>
  \<^verbatim>\<open>def str2bool(s): return s.lower().startswith('t')\<close>

  A string is modelled by its bytes (UTF-8): \<open>lower\<close> maps the ASCII capitals to their
  small letters and leaves every other byte alone (\<open>T\<close> is the only character that
  Python lowers to \<open>t\<close>).
\<close>

definition lower_char :: "char \<Rightarrow> char" where
  "lower_char c =
     (if 65 \<le> (of_char c :: nat) \<and> (of_char c :: nat) \<le> 90
      then char_of ((of_char c :: nat) + 32) else c)"

definition lower :: "string \<Rightarrow> string" where
  "lower s = map lower_char s"

fun startswith :: "string \<Rightarrow> string \<Rightarrow> bool" where
  "startswith s [] = True"
| "startswith [] (p # ps) = False"
| "startswith (c # cs) (p # ps) = (c = p \<and> startswith cs ps)"

definition str2bool :: "string \<Rightarrow> bool" where
  "str2bool s = startswith (lower s) ''t''"

section \<open>Python values: errors, \<open>str\<close> of an integer, \<open>os.path.join\<close>\<close>

text \<open>
  The exceptions the script can raise on its own lines. An exception ends the process;
  the state at the moment of the raise is kept beside it.
\<close>

datatype error =
    AssertionError string
  | FileNotFoundError string
  | UnpicklingError string
  | KeyError string
  | RuntimeError
  | ZeroDivisionError
  | UnboundLocalError
  | TypeError

text \<open>\<open>str(n)\<close> for an integer: decimal digits, most significant first, \<open>-\<close> in front of a negative one.\<close>

definition digit_char :: "nat \<Rightarrow> char" where
  "digit_char d = char_of (48 + d)"

function str_nat :: "nat \<Rightarrow> string" where
  "str_nat n = (if n < 10 then [digit_char n] else str_nat (n div 10) @ [digit_char (n mod 10)])"
  by pat_completeness auto
termination
  by (relation "measure (\<lambda>n. n)") auto

declare str_nat.simps [simp del]

definition str_int :: "int \<Rightarrow> string" where
  "str_int i = (if i < 0 then CHR ''-'' # str_nat (nat (- i)) else str_nat (nat i))"

text \<open>
  \<open>os.path.join(a, b)\<close> (posixpath): an absolute \<open>b\<close> replaces \<open>a\<close>; otherwise the two
  are glued with one separator unless \<open>a\<close> is empty or already ends in one.
\<close>

definition path_join :: "string \<Rightarrow> string \<Rightarrow> string" where
  "path_join a b =
     (if startswith b ''/'' then b
      else if a = [] \<or> last a = CHR ''/'' then a @ b
      else a @ ''/'' @ b)"

text \<open>\<open>range(a, b)\<close>.\<close>

definition py_range :: "int \<Rightarrow> int \<Rightarrow> int list" where
  "py_range a b = [a..b - 1]"

section \<open>Data model\<close>

text \<open>
  An element of an image tensor is a floating-point number: NaN, one of the two
  infinities, or a finite value, kept as the real number it stands for (rounding is
  outside the model). Losses and gradients are real numbers.
\<close>

datatype elem = NaN | NegInf | Val real | PosInf

text \<open>
  A batch is a list of images (\<open>x.size(0)\<close> is its length), an image the list of its
  elements.
\<close>

type_synonym image = "elem list"
type_synonym batch = "image list"

text \<open>
  The dictionary \<open>state\<close> that \<open>test\<close> saves and \<open>main\<close> reads back on resume, with
  its keys \<open>net\<close>, \<open>test_loss\<close> and \<open>epoch\<close>.
\<close>

record 'net checkpoint =
  ckpt_net :: 'net
  ckpt_test_loss :: real
  ckpt_epoch :: int

text \<open>
  What a path of the file system holds: a saved checkpoint, an image grid (kept as the
  images it was made from), or the parameters of the pretrained VAE.
\<close>

datatype 'net file_content = Ckpt "'net checkpoint" | Image batch | VaeParams

text \<open>
  The command-line options the modelled lines read (\<open>batch_size\<close> before line 28
  multiplies it by the GPU count).
\<close>

record args =
  batch_size :: int
  gpu_ids :: "int list"
  max_grad_norm :: real
  num_epochs :: int
  num_samples :: int
  resume :: bool
  save_dir :: string
  warm_up :: int
  vae_model_path :: string

text \<open>The defaults of the argument parser, lines 211 to 235.\<close>

definition default_args :: args where
  "default_args =
     \<lparr>batch_size = 4, gpu_ids = [0], max_grad_norm = 1, num_epochs = 100, num_samples = 64,
      resume = False, save_dir = ''samples'', warm_up = 200,
      vae_model_path = ''vae_ckpts/vae_n_decoder_n_latent_cifar_model_0501.pt''\<rparr>"

text \<open>
  The imported components (\<open>models.FlowPlusPlus\<close>, \<open>vae_n_d_n_l.VAE\<close>, \<open>util.NLLLoss\<close>,
  \<open>optim.Adam\<close>, the CIFAR-10 data loaders, the random draws) are not part of the
  script; they are parameters of the model:
  \<^item> \<open>init_net\<close>, \<open>init_opt\<close>: the freshly built flow and optimizer;
  \<^item> \<open>grad_of n x\<close>: the gradients \<open>loss.backward()\<close> leaves for batch \<open>x\<close>;
  \<^item> \<open>loss_of n x\<close>: \<open>loss.item()\<close> in evaluation mode;
  \<^item> \<open>opt_step o m n g\<close>: \<open>optimizer.step()\<close> at learning-rate multiplier \<open>m\<close>;
  \<^item> \<open>reverse n z\<close>: the first component of \<open>net(z, reverse=True)\<close>;
  \<^item> \<open>train_batches b e\<close>: the batches the training loader (batch size \<open>b\<close>) yields in
    epoch \<open>e\<close>; \<open>test_batches b\<close>: those of the test loader;
  \<^item> \<open>latent e k\<close>: the tensor \<open>z\<close> of lines 134 to 145 (\<open>k\<close> samples, drawn in epoch \<open>e\<close>);
  \<^item> \<open>trainset_len\<close>: \<open>len(trainset)\<close>.
\<close>

record ('net, 'opt) ext =
  init_net :: 'net
  init_opt :: 'opt
  grad_of :: "'net \<Rightarrow> batch \<Rightarrow> real list"
  loss_of :: "'net \<Rightarrow> batch \<Rightarrow> real"
  opt_step :: "'opt \<Rightarrow> real \<Rightarrow> 'net \<Rightarrow> real list \<Rightarrow> 'opt \<times> 'net"
  reverse :: "'net \<Rightarrow> batch \<Rightarrow> batch"
  train_batches :: "int \<Rightarrow> int \<Rightarrow> batch list"
  test_batches :: "int \<Rightarrow> batch list"
  latent :: "int \<Rightarrow> int \<Rightarrow> batch"
  trainset_len :: int

text \<open>
  Everything the script mutates: the files and directories, the two module globals
  \<open>best_loss\<close> and \<open>global_step\<close>, the flow's parameters, the optimizer, the
  multiplier the scheduler last set, and the paths \<open>torch.load\<close> was called on (latest
  first). Console output is not modelled. A write to a path always succeeds, and a call
  into an imported library returns normally unless the model says otherwise.
\<close>

record ('net, 'opt) state =
  fs :: "string \<Rightarrow> 'net file_content option"
  dirs :: "string set"
  best_loss :: real
  global_step :: int
  cur_net :: 'net
  cur_opt :: 'opt
  lr_mult :: real
  loaded :: "string list"

type_synonym ('net, 'opt) result = "error \<times> ('net, 'opt) state + ('net, 'opt) state"

section \<open>The learning-rate schedule\<close>

text \<open>
  \<^verbatim>\<open>lambda s: min(1., s / warm_up)\<close> with both arguments integers: true division, which
  raises on a zero divisor.
\<close>

definition lr_lambda :: "int \<Rightarrow> int \<Rightarrow> error + real" where
  "lr_lambda warm s =
     (if warm = 0 then Inl ZeroDivisionError else Inr (min 1 (real_of_int s / real_of_int warm)))"

text \<open>Line 28: \<^verbatim>\<open>args.batch_size *= max(1, len(args.gpu_ids))\<close>.\<close>

definition scaled_batch_size :: "args \<Rightarrow> int" where
  "scaled_batch_size a = batch_size a * max 1 (int (length (gpu_ids a)))"

text \<open>Line 89: \<^verbatim>\<open>warm_up = args.warm_up * args.batch_size\<close>.\<close>

definition warm_up_steps :: "args \<Rightarrow> int" where
  "warm_up_steps a = warm_up a * scaled_batch_size a"

section \<open>Gradient clipping and the running average\<close>

text \<open>
  Modelled from the spec: \<open>util.clip_grad_norm\<close> is not among the sources. The spec
  (4.1, 8) has it clip the gradient norm to the threshold, so that the global gradient norm
  is not above the threshold afterwards: gradients whose norm exceeds the threshold are
  scaled down to it, others are left alone.
\<close>

definition grad_norm :: "real list \<Rightarrow> real" where
  "grad_norm g = sqrt (sum_list (map (\<lambda>x. x ^ 2) g))"

definition clip_grad_norm :: "real list \<Rightarrow> real \<Rightarrow> real list" where
  "clip_grad_norm g max_norm =
     (if grad_norm g > max_norm then map (\<lambda>x. x * (max_norm / grad_norm g)) g else g)"

text \<open>
  Modelled from the spec: \<open>util.AverageMeter\<close> is not among the sources. The spec (3, 8)
  has it accumulate a sum and a count and report the weighted mean of the per-batch
  losses seen so far, zero after a reset.
\<close>

record meter =
  msum :: real
  mcount :: real

definition meter_reset :: meter where
  "meter_reset = \<lparr>msum = 0, mcount = 0\<rparr>"

definition meter_update :: "meter \<Rightarrow> real \<Rightarrow> int \<Rightarrow> meter" where
  "meter_update m v n = \<lparr>msum = msum m + v * real_of_int n, mcount = mcount m + real_of_int n\<rparr>"

definition avg :: "meter \<Rightarrow> real" where
  "avg m = (if mcount m = 0 then 0 else msum m / mcount m)"


section \<open>Sampling and reconstruction\<close>

text \<open>
  \<open>torch.sigmoid\<close> on one element: NaN stays NaN, the infinities go to 0 and 1, a
  finite \<open>x\<close> to \<open>1 / (1 + exp (- x))\<close>.
\<close>

fun sigmoid :: "elem \<Rightarrow> elem" where
  "sigmoid NaN = NaN"
| "sigmoid NegInf = Val 0"
| "sigmoid (Val x) = Val (1 / (1 + exp (- x)))"
| "sigmoid PosInf = Val 1"

text \<open>A pixel value in the interval from 0 to 1: \<open>0 <= p <= 1\<close>, false of NaN.\<close>

fun in_unit :: "elem \<Rightarrow> bool" where
  "in_unit (Val x) = (0 \<le> x \<and> x \<le> 1)"
| "in_unit NaN = False"
| "in_unit NegInf = False"
| "in_unit PosInf = False"

definition sigmoid_batch :: "batch \<Rightarrow> batch" where
  "sigmoid_batch b = map (map sigmoid) b"

text \<open>
  \<open>sample\<close>, lines 147 to 149: \<^verbatim>\<open>x, _ = net(z, reverse=True); x = torch.sigmoid(x)\<close>,
  on the tensor \<open>z\<close> the lines before drew.
\<close>

definition sample :: "('net, 'opt) ext \<Rightarrow> 'net \<Rightarrow> batch \<Rightarrow> batch" where
  "sample E n z = sigmoid_batch (reverse E n z)"

text \<open>Lines 173 and 174 of \<open>test\<close>, on the last batch \<open>x\<close> of the test loader.\<close>

definition reconstruction :: "('net, 'opt) ext \<Rightarrow> 'net \<Rightarrow> batch \<Rightarrow> batch" where
  "reconstruction E n x = sigmoid_batch (reverse E n x)"

section \<open>\<open>train\<close>\<close>

text \<open>The gradients \<open>optimizer.step()\<close> sees: lines 118 to 120.\<close>

definition step_grads :: "('net, 'opt) ext \<Rightarrow> real \<Rightarrow> 'net \<Rightarrow> batch \<Rightarrow> real list" where
  "step_grads E max_norm n x =
     (if max_norm > 0 then clip_grad_norm (grad_of E n x) max_norm else grad_of E n x)"

text \<open>
  One pass of the loop body, lines 106 to 128: \<open>warm\<close> is the \<open>warm_up\<close> the scheduler's
  lambda has captured. The loss meter of \<open>train\<close> only feeds the progress bar.
\<close>

definition train_batch ::
  "('net, 'opt) ext \<Rightarrow> real \<Rightarrow> int \<Rightarrow> batch \<Rightarrow> ('net, 'opt) state \<Rightarrow> ('net, 'opt) result" where
  "train_batch E max_norm warm x s =
     (let g = step_grads E max_norm (cur_net s) x;
          (opt', net') = opt_step E (cur_opt s) (lr_mult s) (cur_net s) g;
          s1 = s\<lparr>cur_net := net', cur_opt := opt'\<rparr>
      in case lr_lambda warm (global_step s1) of
           Inl e \<Rightarrow> Inl (e, s1)
         | Inr m \<Rightarrow> Inr (s1\<lparr>lr_mult := m, global_step := global_step s1 + int (length x)\<rparr>))"

fun train_loop ::
  "('net, 'opt) ext \<Rightarrow> real \<Rightarrow> int \<Rightarrow> batch list \<Rightarrow> ('net, 'opt) state \<Rightarrow> ('net, 'opt) result" where
  "train_loop E max_norm warm [] s = Inr s"
| "train_loop E max_norm warm (x # xs) s =
     (case train_batch E max_norm warm x s of
        Inl r \<Rightarrow> Inl r
      | Inr s' \<Rightarrow> train_loop E max_norm warm xs s')"

definition train ::
  "int \<Rightarrow> ('net, 'opt) ext \<Rightarrow> batch list \<Rightarrow> int \<Rightarrow> real \<Rightarrow> ('net, 'opt) state \<Rightarrow> ('net, 'opt) result" where
  "train epoch E trainloader warm max_norm s = train_loop E max_norm warm trainloader s"

section \<open>\<open>test\<close>\<close>

definition ckpt_path :: "int \<Rightarrow> string" where
  "ckpt_path epoch = ''ckpts/flow++_'' @ str_int epoch @ ''vae(n_d_n_l_64).pth.tar''"

definition recon_path :: "int \<Rightarrow> string" where
  "recon_path epoch = ''samples/reconstruction_epoch_'' @ str_int epoch @ ''.png''"

definition sample_path :: "string \<Rightarrow> int \<Rightarrow> string" where
  "sample_path dir epoch = path_join dir (''epoch_'' @ str_int epoch @ ''.png'')"

text \<open>The meter after the loop of lines 158 to 171.\<close>

definition eval_meter :: "('net, 'opt) ext \<Rightarrow> 'net \<Rightarrow> batch list \<Rightarrow> meter" where
  "eval_meter E n testloader =
     foldl (\<lambda>m x. meter_update m (loss_of E n x) (int (length x))) meter_reset testloader"

text \<open>
  \<open>test\<close>, lines 153 to 202; \<open>z\<close> is the tensor \<open>sample\<close> draws. With no test batch
  \<open>x\<close> is unbound at line 173; a negative \<open>num_samples\<close> (here \<open>nsamples\<close>) makes
  \<open>num_samples ** 0.5\<close> complex and \<open>int\<close> of it a type error (line 194);
  \<open>os.makedirs\<close> of the empty path raises (line 199).
\<close>

definition test ::
  "int \<Rightarrow> ('net, 'opt) ext \<Rightarrow> batch list \<Rightarrow> int \<Rightarrow> string \<Rightarrow> batch \<Rightarrow>
   ('net, 'opt) state \<Rightarrow> ('net, 'opt) result" where
  "test epoch E testloader nsamples dir z s =
     (let loss_meter = eval_meter E (cur_net s) testloader in
      if testloader = [] then Inl (UnboundLocalError, s)
      else
        let reconstruction_images = reconstruction E (cur_net s) (last testloader);
            s1 = (if avg loss_meter < best_loss s then s\<lparr>best_loss := avg loss_meter\<rparr> else s);
            st = \<lparr>ckpt_net = cur_net s1, ckpt_test_loss = avg loss_meter, ckpt_epoch = epoch\<rparr>;
            s2 = s1\<lparr>dirs := insert ''ckpts'' (dirs s1),
                    fs := (fs s1)(ckpt_path epoch \<mapsto> Ckpt st)\<rparr>;
            s3 = s2\<lparr>dirs := insert ''samples'' (dirs s2)\<rparr>
        in if nsamples < 0 then Inl (TypeError, s3)
           else
             let s4 = s3\<lparr>fs := (fs s3)(recon_path epoch \<mapsto> Image reconstruction_images)\<rparr>;
                 images = sample E (cur_net s4) z
             in if dir = [] then Inl (FileNotFoundError dir, s4)
                else Inr (s4\<lparr>dirs := insert dir (dirs s4),
                             fs := (fs s4)(sample_path dir epoch \<mapsto> Image images)\<rparr>))"

section \<open>\<open>main\<close>\<close>

text \<open>The resume block, lines 74 to 84; it gives \<open>start_epoch\<close>.\<close>

definition resume_checkpoint ::
  "('net, 'opt) ext \<Rightarrow> ('net, 'opt) state \<Rightarrow> error \<times> ('net, 'opt) state + int \<times> ('net, 'opt) state" where
  "resume_checkpoint E s =
     (if ''save'' \<notin> dirs s then Inl (AssertionError ''Error: no checkpoint directory found!'', s)
      else
        let s1 = s\<lparr>loaded := ''save/best.pth.tar'' # loaded s\<rparr> in
        case fs s ''save/best.pth.tar'' of
          None \<Rightarrow> Inl (FileNotFoundError ''save/best.pth.tar'', s1)
        | Some (Image i) \<Rightarrow> Inl (UnpicklingError ''save/best.pth.tar'', s1)
        | Some VaeParams \<Rightarrow> Inl (KeyError ''net'', s1)
        | Some (Ckpt checkpoint) \<Rightarrow>
            Inr (ckpt_epoch checkpoint,
                 s1\<lparr>cur_net := ckpt_net checkpoint,
                    best_loss := ckpt_test_loss checkpoint,
                    global_step := ckpt_epoch checkpoint * trainset_len E\<rparr>))"

text \<open>The loop of lines 92 to 95 over the epochs \<open>es\<close>.\<close>

fun epochs_loop ::
  "('net, 'opt) ext \<Rightarrow> args \<Rightarrow> int \<Rightarrow> int \<Rightarrow> int list \<Rightarrow> ('net, 'opt) state \<Rightarrow> ('net, 'opt) result" where
  "epochs_loop E a bs warm [] s = Inr s"
| "epochs_loop E a bs warm (e # es) s =
     (case train e E (train_batches E bs e) warm (max_grad_norm a) s of
        Inl r \<Rightarrow> Inl r
      | Inr s1 \<Rightarrow>
          (case test e E (test_batches E bs) (num_samples a) (save_dir a) (latent E e (num_samples a)) s1 of
             Inl r \<Rightarrow> Inl r
           | Inr s2 \<Rightarrow> epochs_loop E a bs warm es s2))"

text \<open>
  \<open>main\<close>: the batch size is scaled (line 28), the VAE parameters are loaded (line 55),
  the flow is built, the resume block runs if asked for, the scheduler is built
  (\<open>LambdaLR\<close> evaluates its lambda at step 0 to set the first learning rate), and the
  epochs run.
\<close>

definition main :: "('net, 'opt) ext \<Rightarrow> args \<Rightarrow> ('net, 'opt) state \<Rightarrow> ('net, 'opt) result" where
  "main E a s =
     (let bs = scaled_batch_size a;
          s1 = s\<lparr>loaded := vae_model_path a # loaded s\<rparr>
      in case fs s (vae_model_path a) of
           None \<Rightarrow> Inl (FileNotFoundError (vae_model_path a), s1)
         | Some (Image i) \<Rightarrow> Inl (UnpicklingError (vae_model_path a), s1)
         | Some (Ckpt c) \<Rightarrow> Inl (RuntimeError, s1)
         | Some VaeParams \<Rightarrow>
             (case (if resume a then resume_checkpoint E (s1\<lparr>cur_net := init_net E\<rparr>)
                    else Inr (0, s1\<lparr>cur_net := init_net E\<rparr>)) of
                Inl r \<Rightarrow> Inl r
              | Inr (start_epoch, s2) \<Rightarrow>
                  (case lr_lambda (warm_up a * bs) 0 of
                     Inl e \<Rightarrow> Inl (e, s2\<lparr>cur_opt := init_opt E\<rparr>)
                   | Inr m \<Rightarrow>
                       epochs_loop E a bs (warm_up a * bs)
                         (py_range start_epoch (start_epoch + num_epochs a))
                         (s2\<lparr>cur_opt := init_opt E, lr_mult := m\<rparr>))))"

text \<open>
  The script run on a file system: lines 237 and 238 set the two globals to 0 before
  \<open>main\<close> is called.
\<close>

definition initial_state ::
  "('net, 'opt) ext \<Rightarrow> (string \<Rightarrow> 'net file_content option) \<Rightarrow> string set \<Rightarrow> ('net, 'opt) state" where
  "initial_state E f d =
     \<lparr>fs = f, dirs = d, best_loss = 0, global_step = 0,
      cur_net = init_net E, cur_opt = init_opt E, lr_mult = 1, loaded = []\<rparr>"

definition script ::
  "('net, 'opt) ext \<Rightarrow> args \<Rightarrow> (string \<Rightarrow> 'net file_content option) \<Rightarrow> string set \<Rightarrow> ('net, 'opt) result" where
  "script E a f d = main E a (initial_state E f d)"

text \<open>The state a run ends in, raised or not.\<close>

definition state_of :: "('net, 'opt) result \<Rightarrow> ('net, 'opt) state" where
  "state_of r = (case r of Inl (e, s) \<Rightarrow> s | Inr s \<Rightarrow> s)"

section \<open>A small instance of the imported components\<close>

text \<open>
  For evaluating the definitions on concrete inputs: a flow with one parameter, plain
  gradient descent as the optimizer, one training batch and one test batch of a single
  one-pixel image each.
\<close>

definition toy_ext :: "(real, unit) ext" where
  "toy_ext =
     \<lparr>init_net = 0,
      init_opt = (),
      grad_of = (\<lambda>n x. [3, 4]),
      loss_of = (\<lambda>n x. n + 2),
      opt_step = (\<lambda>opt m n g. ((), n - m * sum_list g)),
      reverse = (\<lambda>n z. z),
      train_batches = (\<lambda>b e. [[[Val 0]]]),
      test_batches = (\<lambda>b. [[[Val 0]]]),
      latent = (\<lambda>e k. [[Val 0]]),
      trainset_len = 50000\<rparr>"

text \<open>
  The same with a flow whose inverse pass returns NaN in every element, as a flow does
  whose parameters have diverged to NaN.
\<close>

definition nan_ext :: "(real, unit) ext" where
  "nan_ext = toy_ext\<lparr>reverse := (\<lambda>n z. map (map (\<lambda>v. NaN)) z)\<rparr>"

text \<open>Options that ask to resume, and a file system with something to resume from.\<close>

definition resume_args :: args where
  "resume_args = default_args\<lparr>resume := True\<rparr>"

definition toy_fs :: "string \<Rightarrow> real file_content option" where
  "toy_fs =
     [vae_model_path default_args \<mapsto> VaeParams,
      ''save/best.pth.tar'' \<mapsto> Ckpt \<lparr>ckpt_net = 1, ckpt_test_loss = 3, ckpt_epoch = 2\<rparr>]"

section \<open>Properties of \<open>str2bool\<close>\<close>

lemma lower_char_t: "lower_char c = CHR ''t'' \<longleftrightarrow> c = CHR ''t'' \<or> c = CHR ''T''"
proof (cases "65 \<le> (of_char c :: nat) \<and> (of_char c :: nat) \<le> 90")
  case True
  have "lower_char c = CHR ''t'' \<longleftrightarrow> char_of ((of_char c :: nat) + 32) = CHR ''t''"
    using True by (simp add: lower_char_def)
  also have "\<dots> \<longleftrightarrow> (of_char (char_of ((of_char c :: nat) + 32) :: char) :: nat) = of_char (CHR ''t'')"
    by (metis of_char_eq_iff)
  also have "\<dots> \<longleftrightarrow> (of_char c :: nat) = 84"
    using True by (simp add: of_char_of)
  also have "\<dots> \<longleftrightarrow> (of_char c :: nat) = of_char (CHR ''T'')"
    by simp
  also have "\<dots> \<longleftrightarrow> c = CHR ''T''"
    by (metis of_char_eq_iff)
  finally have "lower_char c = CHR ''t'' \<longleftrightarrow> c = CHR ''T''" .
  moreover have "c \<noteq> CHR ''t''"
    using True by auto
  ultimately show ?thesis by simp
next
  case False
  then have "lower_char c = c"
    unfolding lower_char_def by (simp only: if_False)
  moreover have "c \<noteq> CHR ''T''"
    using False by auto
  ultimately show ?thesis by simp
qed

text \<open>
  C10. A boolean option (\<open>--benchmark\<close>, \<open>--resume\<close>, \<open>--use_attn\<close>, all parsed by
  \<open>str2bool\<close>) is true exactly when its argument string starts with \<open>t\<close> or \<open>T\<close>;
  every other string, \<open>yes\<close> and \<open>1\<close> among them, gives false. The function is total:
  no string raises.
\<close>

theorem str2bool_iff:
  "(str2bool s \<longleftrightarrow> (\<exists>r. s = CHR ''t'' # r \<or> s = CHR ''T'' # r))
   \<and> str2bool ''yes'' = False \<and> str2bool ''1'' = False \<and> str2bool '''' = False"
proof -
  have a: "str2bool s \<longleftrightarrow> (\<exists>r. s = CHR ''t'' # r \<or> s = CHR ''T'' # r)"
  proof (cases s)
    case Nil
    then show ?thesis by (simp add: str2bool_def lower_def)
  next
    case (Cons c r)
    then show ?thesis
      using lower_char_t [of c] by (auto simp: str2bool_def lower_def)
  qed
  have b: "str2bool ''yes'' = False"
    by (simp add: str2bool_def lower_def lower_char_def)
  have c: "str2bool ''1'' = False"
    by (simp add: str2bool_def lower_def lower_char_def)
  have d: "str2bool '''' = False"
    by (simp add: str2bool_def lower_def)
  from a b c d show ?thesis by simp
qed

section \<open>The warmup schedule\<close>

text \<open>
  C1, as stated, fails: the schedule's argument is \<open>global_step\<close>, which counts samples,
  and its ramp is \<open>args.warm_up * args.batch_size\<close> long, not \<open>args.warm_up\<close>. With the
  default options (warm-up 200, batch size 4, one GPU) the multiplier at step index 200
  is 1/4, not 1.
\<close>

theorem warmup_ramp_counterexample:
  "lr_lambda (warm_up_steps default_args) (warm_up default_args) = Inr (1 / 4)
   \<and> lr_lambda (warm_up_steps default_args) (warm_up default_args) \<noteq> Inr 1"
  by (simp add: lr_lambda_def warm_up_steps_def scaled_batch_size_def default_args_def)

text \<open>
  C1, amended. With a positive \<open>--warm_up\<close> and a positive batch size, the multiplier at
  step index \<open>s\<close> (the sample counter \<open>global_step\<close>) is \<open>s / W\<close> for \<open>0 \<le> s \<le> W\<close> and 1
  for every \<open>s \<ge> W\<close>, where \<open>W\<close> is \<open>--warm_up\<close> times the batch size (itself multiplied
  by the number of GPUs): 0 at step 0, 1 from \<open>W\<close> on. Each training batch sets the
  multiplier from the counter and then advances the counter by the number of its images,
  so the ramp is over, from a fresh start, after \<open>--warm_up\<close> full batches.
\<close>

theorem warmup_schedule:
  assumes "0 < warm_up a" and "0 < scaled_batch_size a"
  shows "(0 \<le> s \<and> s \<le> warm_up_steps a \<longrightarrow>
            lr_lambda (warm_up_steps a) s = Inr (real_of_int s / real_of_int (warm_up_steps a)))
       \<and> (warm_up_steps a \<le> s \<longrightarrow> lr_lambda (warm_up_steps a) s = Inr 1)
       \<and> lr_lambda (warm_up_steps a) 0 = Inr 0
       \<and> lr_lambda (warm_up_steps a) (warm_up a * scaled_batch_size a) = Inr 1
       \<and> (\<exists>st'. train_batch E T (warm_up_steps a) x st = Inr st'
             \<and> lr_lambda (warm_up_steps a) (global_step st) = Inr (lr_mult st')
             \<and> global_step st' = global_step st + int (length x))"
proof -
  have w: "0 < warm_up_steps a"
    using assms by (simp add: warm_up_steps_def)
  have p1: "0 \<le> s \<and> s \<le> warm_up_steps a \<longrightarrow>
            lr_lambda (warm_up_steps a) s = Inr (real_of_int s / real_of_int (warm_up_steps a))"
    using w by (auto simp: lr_lambda_def min_def)
  have p2: "warm_up_steps a \<le> s \<longrightarrow> lr_lambda (warm_up_steps a) s = Inr 1"
    using w by (auto simp: lr_lambda_def min_def)
  have p3: "lr_lambda (warm_up_steps a) 0 = Inr 0"
    using w by (simp add: lr_lambda_def)
  have p4: "lr_lambda (warm_up_steps a) (warm_up a * scaled_batch_size a) = Inr 1"
    using assms by (simp add: lr_lambda_def warm_up_steps_def)
  have p5: "\<exists>st'. train_batch E T (warm_up_steps a) x st = Inr st'
             \<and> lr_lambda (warm_up_steps a) (global_step st) = Inr (lr_mult st')
             \<and> global_step st' = global_step st + int (length x)"
    using w by (simp add: train_batch_def lr_lambda_def Let_def split: prod.splits)
  from p1 p2 p3 p4 p5 show ?thesis by blast
qed

theorem warmup_schedule_witness:
  "0 < warm_up default_args \<and> 0 < scaled_batch_size default_args
   \<and> lr_lambda (warm_up_steps default_args) 200 = Inr (1 / 4)
   \<and> lr_lambda (warm_up_steps default_args) 800 = Inr 1
   \<and> lr_lambda (warm_up_steps default_args) 5000 = Inr 1"
proof -
  have h1: "0 < warm_up default_args" by (simp add: default_args_def)
  have h2: "0 < scaled_batch_size default_args"
    by (simp add: default_args_def scaled_batch_size_def)
  have w: "warm_up_steps default_args = 800"
    by (simp add: default_args_def scaled_batch_size_def warm_up_steps_def)
  show ?thesis
    using h1 h2
      warmup_schedule [OF h1 h2, of 200 toy_ext 1 "[[Val 0]]" "initial_state toy_ext Map.empty {}"]
      warmup_schedule [OF h1 h2, of 800 toy_ext 1 "[[Val 0]]" "initial_state toy_ext Map.empty {}"]
      warmup_schedule [OF h1 h2, of 5000 toy_ext 1 "[[Val 0]]" "initial_state toy_ext Map.empty {}"]
    by (simp add: w)
qed

section \<open>Paths: \<open>str\<close> is injective, the paths written are distinct\<close>

lemma digit_char_val: "d < 10 \<Longrightarrow> (of_char (digit_char d) :: nat) = 48 + d"
  by (simp add: digit_char_def of_char_of)

lemma str_nat_parse: "foldl (\<lambda>a c. 10 * a + ((of_char c :: nat) - 48)) 0 (str_nat n) = n"
proof (induction n rule: str_nat.induct)
  case (1 n)
  show ?case
  proof (cases "n < 10")
    case True
    then show ?thesis
      by (subst str_nat.simps) (simp add: digit_char_val)
  next
    case False
    have "n mod 10 < 10" by simp
    then have d: "(of_char (digit_char (n mod 10)) :: nat) - 48 = n mod 10"
      by (simp add: digit_char_val)
    show ?thesis
      using False 1 [OF False] d by (subst str_nat.simps) simp
  qed
qed

lemma str_nat_inj: "str_nat m = str_nat n \<Longrightarrow> m = n"
  by (metis str_nat_parse)

lemma str_nat_no_minus: "c \<in> set (str_nat n) \<Longrightarrow> c \<noteq> CHR ''-''"
proof (induction n rule: str_nat.induct)
  case (1 n)
  have dig: "\<And>d. d < 10 \<Longrightarrow> digit_char d \<noteq> CHR ''-''"
  proof
    fix d :: nat
    assume "d < 10" and "digit_char d = CHR ''-''"
    then have "(of_char (CHR ''-'') :: nat) = 48 + d"
      using digit_char_val [of d] by simp
    then show False by simp
  qed
  show ?case
  proof (cases "n < 10")
    case True
    then show ?thesis
      using 1(2) dig [of n] by (subst (asm) str_nat.simps) simp
  next
    case False
    have "n mod 10 < 10" by simp
    then show ?thesis
      using False 1(1) [OF False] 1(2) dig [of "n mod 10"]
      by (subst (asm) str_nat.simps) auto
  qed
qed

lemma str_nat_nonempty: "str_nat n \<noteq> []"
  by (subst str_nat.simps) simp

lemma str_int_inj: "str_int i = str_int j \<Longrightarrow> i = j"
proof -
  assume eq: "str_int i = str_int j"
  have hd: "\<And>n. hd (str_nat n) \<noteq> CHR ''-''"
    using str_nat_no_minus str_nat_nonempty by (metis hd_in_set)
  have cons: "\<And>n xs. str_nat n \<noteq> CHR ''-'' # xs"
    using hd by (metis list.sel(1))
  show ?thesis
  proof (cases "i < 0")
    case True
    show ?thesis
    proof (cases "j < 0")
      case True
      with \<open>i < 0\<close> eq have "nat (- i) = nat (- j)"
        by (simp add: str_int_def str_nat_inj)
      with True \<open>i < 0\<close> show ?thesis by simp
    next
      case False
      with \<open>i < 0\<close> eq cons show ?thesis
        by (simp add: str_int_def) metis
    qed
  next
    case False
    show ?thesis
    proof (cases "j < 0")
      case True
      with \<open>\<not> i < 0\<close> eq cons show ?thesis
        by (simp add: str_int_def)
    next
      case False
      with \<open>\<not> i < 0\<close> eq have "nat i = nat j"
        by (simp add: str_int_def str_nat_inj)
      with False \<open>\<not> i < 0\<close> show ?thesis by simp
    qed
  qed
qed

lemma ckpt_path_inj: "ckpt_path e = ckpt_path e' \<Longrightarrow> e = e'"
  by (simp add: ckpt_path_def str_int_inj)

lemma ckpt_path_last: "last (ckpt_path e) = CHR ''r''"
  by (simp add: ckpt_path_def)

lemma recon_path_last: "last (recon_path e) = CHR ''g''"
  by (simp add: recon_path_def)

lemma sample_path_last: "last (sample_path dir e) = CHR ''g''"
  by (simp add: sample_path_def path_join_def)

lemma ckpt_not_recon: "ckpt_path e \<noteq> recon_path e'"
  using ckpt_path_last [of e] recon_path_last [of e'] by auto

lemma ckpt_not_sample: "ckpt_path e \<noteq> sample_path dir e'"
  using ckpt_path_last [of e] sample_path_last [of dir e'] by auto

lemma ckpt_not_resume: "ckpt_path e \<noteq> ''save/best.pth.tar''"
  by (simp add: ckpt_path_def)

lemma recon_not_resume: "recon_path e \<noteq> ''save/best.pth.tar''"
  by (simp add: recon_path_def)

lemma sample_not_resume: "sample_path dir e \<noteq> ''save/best.pth.tar''"
  using sample_path_last [of dir e] by auto

section \<open>What \<open>train\<close>, \<open>test\<close> and the epoch loop leave alone\<close>

lemma state_of_simps [simp]: "state_of (Inl (e, s)) = s" "state_of (Inr s) = s"
  by (simp_all add: state_of_def)

lemma train_batch_frame:
  "fs (state_of (train_batch E T w x s)) = fs s"
  "dirs (state_of (train_batch E T w x s)) = dirs s"
  "best_loss (state_of (train_batch E T w x s)) = best_loss s"
  "loaded (state_of (train_batch E T w x s)) = loaded s"
  by (simp_all add: train_batch_def Let_def split: prod.splits sum.splits)

lemma train_loop_frame:
  "fs (state_of (train_loop E T w xs s)) = fs s
   \<and> dirs (state_of (train_loop E T w xs s)) = dirs s
   \<and> best_loss (state_of (train_loop E T w xs s)) = best_loss s
   \<and> loaded (state_of (train_loop E T w xs s)) = loaded s"
proof (induction xs arbitrary: s)
  case Nil
  show ?case by simp
next
  case (Cons x xs)
  show ?case
  proof (cases "train_batch E T w x s")
    case (Inl r)
    then show ?thesis
      using train_batch_frame [of E T w x s] by (cases r) simp
  next
    case (Inr s')
    then show ?thesis
      using train_batch_frame [of E T w x s] Cons [of s'] by simp
  qed
qed

lemma train_batch_ok:
  "w \<noteq> 0 \<Longrightarrow> \<exists>s'. train_batch E T w x s = Inr s' \<and> global_step s' = global_step s + int (length x)"
  by (simp add: train_batch_def lr_lambda_def Let_def split: prod.splits)

lemma train_loop_ok:
  "w \<noteq> 0 \<Longrightarrow> \<exists>s'. train_loop E T w xs s = Inr s'
      \<and> global_step s' = global_step s + int (sum_list (map length xs))"
proof (induction xs arbitrary: s)
  case Nil
  show ?case by simp
next
  case (Cons x xs)
  obtain s1 where s1: "train_batch E T w x s = Inr s1"
      "global_step s1 = global_step s + int (length x)"
    using train_batch_ok [OF Cons.prems] by blast
  obtain s2 where s2: "train_loop E T w xs s1 = Inr s2"
      "global_step s2 = global_step s1 + int (sum_list (map length xs))"
    using Cons.IH [OF Cons.prems] by blast
  show ?case using s1 s2 by simp
qed

lemma test_ckpt_written:
  "testloader \<noteq> [] \<Longrightarrow>
   fs (state_of (test epoch E testloader n dir z s)) (ckpt_path epoch) =
     Some (Ckpt \<lparr>ckpt_net = cur_net s,
                 ckpt_test_loss = avg (eval_meter E (cur_net s) testloader),
                 ckpt_epoch = epoch\<rparr>)"
  by (simp add: test_def Let_def ckpt_not_recon ckpt_not_sample)

lemma test_fs_other:
  "p \<noteq> ckpt_path epoch \<Longrightarrow> p \<noteq> recon_path epoch \<Longrightarrow> p \<noteq> sample_path dir epoch \<Longrightarrow>
   fs (state_of (test epoch E testloader n dir z s)) p = fs s p"
  by (simp add: test_def Let_def)

lemma test_best_loss:
  "testloader \<noteq> [] \<Longrightarrow>
   best_loss (state_of (test epoch E testloader n dir z s)) =
     (if avg (eval_meter E (cur_net s) testloader) < best_loss s
      then avg (eval_meter E (cur_net s) testloader) else best_loss s)"
  by (simp add: test_def Let_def)

lemma test_frame:
  "cur_net (state_of (test epoch E testloader n dir z s)) = cur_net s"
  "global_step (state_of (test epoch E testloader n dir z s)) = global_step s"
  "loaded (state_of (test epoch E testloader n dir z s)) = loaded s"
  by (simp_all add: test_def Let_def)

lemma epochs_loop_append:
  "epochs_loop E a bs w (xs @ ys) s =
     (case epochs_loop E a bs w xs s of Inl r \<Rightarrow> Inl r | Inr s' \<Rightarrow> epochs_loop E a bs w ys s')"
  by (induction xs arbitrary: s) (auto split: sum.splits)

lemma epochs_loop_fs_other:
  "(\<And>e. e \<in> set es \<Longrightarrow> p \<noteq> ckpt_path e \<and> p \<noteq> recon_path e \<and> p \<noteq> sample_path (save_dir a) e)
   \<Longrightarrow> fs (state_of (epochs_loop E a bs w es s)) p = fs s p"
proof (induction es arbitrary: s)
  case Nil
  show ?case by simp
next
  case (Cons e es)
  have pe: "p \<noteq> ckpt_path e" "p \<noteq> recon_path e" "p \<noteq> sample_path (save_dir a) e"
    using Cons.prems [of e] by simp_all
  have rest: "\<And>e'. e' \<in> set es \<Longrightarrow>
      p \<noteq> ckpt_path e' \<and> p \<noteq> recon_path e' \<and> p \<noteq> sample_path (save_dir a) e'"
    using Cons.prems by simp
  let ?tr = "train e E (train_batches E bs e) w (max_grad_norm a) s"
  have tr: "fs (state_of ?tr) = fs s"
    using train_loop_frame [of E "max_grad_norm a" w "train_batches E bs e" s]
    by (simp add: train_def)
  show ?case
  proof (cases ?tr)
    case (Inl r)
    then show ?thesis using tr by (cases r) simp
  next
    case (Inr s1)
    let ?te = "test e E (test_batches E bs) (num_samples a) (save_dir a) (latent E e (num_samples a)) s1"
    have te: "fs (state_of ?te) p = fs s p"
      using test_fs_other [OF pe, of E "test_batches E bs" "num_samples a" "latent E e (num_samples a)" s1]
        tr Inr by simp
    show ?thesis
    proof (cases ?te)
      case (Inl r)
      then show ?thesis using te \<open>?tr = Inr s1\<close> by (cases r) simp
    next
      case (Inr s2)
      then show ?thesis
        using te \<open>?tr = Inr s1\<close> Cons.IH [OF rest, of s2] by simp
    qed
  qed
qed

section \<open>Resuming\<close>

lemma main_fresh:
  assumes "\<not> resume a" and "fs s (vae_model_path a) = Some VaeParams"
    and "warm_up_steps a \<noteq> 0"
  shows "main E a s =
     epochs_loop E a (scaled_batch_size a) (warm_up_steps a) (py_range 0 (num_epochs a))
       (s\<lparr>loaded := vae_model_path a # loaded s, cur_net := init_net E,
          cur_opt := init_opt E, lr_mult := 0\<rparr>)"
  using assms by (simp add: main_def Let_def lr_lambda_def warm_up_steps_def)

lemma main_resumed:
  assumes "resume a" and "fs s (vae_model_path a) = Some VaeParams"
    and "''save'' \<in> dirs s" and "fs s ''save/best.pth.tar'' = Some (Ckpt c)"
    and "warm_up_steps a \<noteq> 0"
  shows "main E a s =
     epochs_loop E a (scaled_batch_size a) (warm_up_steps a)
       (py_range (ckpt_epoch c) (ckpt_epoch c + num_epochs a))
       (s\<lparr>loaded := ''save/best.pth.tar'' # vae_model_path a # loaded s,
          cur_net := ckpt_net c, best_loss := ckpt_test_loss c,
          global_step := ckpt_epoch c * trainset_len E,
          cur_opt := init_opt E, lr_mult := 0\<rparr>)"
  using assms
  by (simp add: main_def resume_checkpoint_def Let_def lr_lambda_def warm_up_steps_def)

text \<open>
  C3. When the script resumes (the VAE parameters load, the directory \<open>save\<close> exists and
  \<open>save/best.pth.tar\<close> holds a checkpoint whose stored epoch is \<open>E\<close>), the epoch loop
  starts at \<open>E\<close> from a state whose \<open>global_step\<close> is \<open>E\<close> times \<open>len(trainset)\<close>.
\<close>

theorem resume_global_step:
  assumes "resume a" and "f (vae_model_path a) = Some VaeParams"
    and "''save'' \<in> d" and "f ''save/best.pth.tar'' = Some (Ckpt c)"
    and "warm_up_steps a \<noteq> 0"
  shows "\<exists>s2. global_step s2 = ckpt_epoch c * trainset_len E
           \<and> script E a f d =
               epochs_loop E a (scaled_batch_size a) (warm_up_steps a)
                 (py_range (ckpt_epoch c) (ckpt_epoch c + num_epochs a)) s2"
proof -
  let ?s = "initial_state E f d"
  let ?s2 = "?s\<lparr>loaded := ''save/best.pth.tar'' # vae_model_path a # loaded ?s,
          cur_net := ckpt_net c, best_loss := ckpt_test_loss c,
          global_step := ckpt_epoch c * trainset_len E,
          cur_opt := init_opt E, lr_mult := 0\<rparr>"
  have m: "main E a ?s =
     epochs_loop E a (scaled_batch_size a) (warm_up_steps a)
       (py_range (ckpt_epoch c) (ckpt_epoch c + num_epochs a))
       (?s\<lparr>loaded := ''save/best.pth.tar'' # vae_model_path a # loaded ?s,
          cur_net := ckpt_net c, best_loss := ckpt_test_loss c,
          global_step := ckpt_epoch c * trainset_len E,
          cur_opt := init_opt E, lr_mult := 0\<rparr>)"
    using assms by (intro main_resumed) (simp_all add: initial_state_def)
  have g: "global_step ?s2 = ckpt_epoch c * trainset_len E"
    by simp
  from m g show ?thesis
    unfolding script_def by blast
qed

text \<open>
  C7. With the resume flag set and no directory \<open>save\<close>, the script ends in the
  assertion error with its message. At that moment \<open>torch.load\<close> has been called on
  the VAE parameters only (line 55): the checkpoint was not read, the globals and the
  files are as at the start. The resume block itself does nothing else on such a state.
\<close>

theorem resume_without_directory:
  assumes "resume a" and "''save'' \<notin> d" and "f (vae_model_path a) = Some VaeParams"
  shows "script E a f d =
           Inl (AssertionError ''Error: no checkpoint directory found!'',
                (initial_state E f d)\<lparr>loaded := [vae_model_path a]\<rparr>)
         \<and> resume_checkpoint E ((initial_state E f d)\<lparr>loaded := [vae_model_path a]\<rparr>) =
           Inl (AssertionError ''Error: no checkpoint directory found!'',
                (initial_state E f d)\<lparr>loaded := [vae_model_path a]\<rparr>)"
  using assms
  by (simp add: script_def main_def resume_checkpoint_def Let_def initial_state_def)


theorem resume_global_step_witness:
  "resume resume_args \<and> toy_fs (vae_model_path resume_args) = Some VaeParams
   \<and> ''save'' \<in> {''save''}
   \<and> toy_fs ''save/best.pth.tar'' = Some (Ckpt \<lparr>ckpt_net = 1, ckpt_test_loss = 3, ckpt_epoch = 2\<rparr>)
   \<and> warm_up_steps resume_args \<noteq> 0
   \<and> (\<exists>s2. global_step s2 = 100000
         \<and> script toy_ext resume_args toy_fs {''save''} =
             epochs_loop toy_ext resume_args 4 800 (py_range 2 102) s2)"
proof -
  have h1: "resume resume_args"
    by (simp add: resume_args_def)
  have h2: "toy_fs (vae_model_path resume_args) = Some VaeParams"
    by (simp add: resume_args_def toy_fs_def default_args_def)
  have h3: "''save'' \<in> {''save''}"
    by simp
  have h4: "toy_fs ''save/best.pth.tar'' =
      Some (Ckpt \<lparr>ckpt_net = 1, ckpt_test_loss = 3, ckpt_epoch = 2\<rparr>)"
    by (simp add: toy_fs_def)
  have h5: "warm_up_steps resume_args \<noteq> 0"
    by (simp add: resume_args_def default_args_def warm_up_steps_def scaled_batch_size_def)
  have v: "scaled_batch_size resume_args = 4" "warm_up_steps resume_args = 800"
      "num_epochs resume_args = 100" "trainset_len toy_ext = 50000"
    by (simp_all add: resume_args_def default_args_def warm_up_steps_def scaled_batch_size_def
        toy_ext_def)
  show ?thesis
    using h1 h2 h3 h4 h5 resume_global_step [OF h1 h2 h3 h4 h5, of toy_ext]
    by (simp add: v)
qed

theorem resume_without_directory_witness:
  "resume resume_args \<and> ''save'' \<notin> {''ckpts''}
   \<and> toy_fs (vae_model_path resume_args) = Some VaeParams
   \<and> script toy_ext resume_args toy_fs {''ckpts''} =
       Inl (AssertionError ''Error: no checkpoint directory found!'',
            (initial_state toy_ext toy_fs {''ckpts''})\<lparr>loaded := [vae_model_path resume_args]\<rparr>)"
proof -
  have h1: "resume resume_args"
    by (simp add: resume_args_def)
  have h2: "''save'' \<notin> {''ckpts''}"
    by simp
  have h3: "toy_fs (vae_model_path resume_args) = Some VaeParams"
    by (simp add: resume_args_def toy_fs_def default_args_def)
  show ?thesis
    using h1 h2 h3
      resume_without_directory [where a = resume_args and d = "{''ckpts''}" and f = toy_fs
        and E = toy_ext, OF h1 h2 h3]
    by simp
qed

section \<open>Checkpoints\<close>

lemma epochs_loop_last:
  assumes "epochs_loop E a bs w (es @ [e]) s = Inr s1"
  shows "\<exists>s0. test e E (test_batches E bs) (num_samples a) (save_dir a)
              (latent E e (num_samples a)) s0 = Inr s1"
proof -
  from assms obtain s' where s': "epochs_loop E a bs w es s = Inr s'"
      "epochs_loop E a bs w [e] s' = Inr s1"
    by (auto simp: epochs_loop_append split: sum.splits)
  from s'(2) show ?thesis
    by (auto split: sum.splits)
qed

text \<open>
  C4. Every call of \<open>test\<close> that gets past its first batch writes, whatever
  \<open>best_loss\<close> is, the flow's parameters, the average evaluation loss and the epoch
  index to \<open>ckpts/flow++_<epoch>vae(n_d_n_l_64).pth.tar\<close>; different epochs have
  different paths; and once epoch \<open>e\<close> of the loop over \<open>range(lo, hi)\<close> has finished in
  state \<open>s1\<close>, the file it wrote is still there, unchanged, however the rest of the loop
  ends.
\<close>

theorem checkpoint_every_epoch:
  assumes "test_batches E bs \<noteq> []" and "lo \<le> e" and "e < hi"
    and "epochs_loop E a bs w (py_range lo (e + 1)) s = Inr s1"
  shows "fs s1 (ckpt_path e) =
           Some (Ckpt \<lparr>ckpt_net = cur_net s1,
                       ckpt_test_loss = avg (eval_meter E (cur_net s1) (test_batches E bs)),
                       ckpt_epoch = e\<rparr>)
       \<and> fs (state_of (epochs_loop E a bs w (py_range lo hi) s)) (ckpt_path e) = fs s1 (ckpt_path e)
       \<and> fs (state_of (test e E (test_batches E bs) n dir z s0)) (ckpt_path e) =
           Some (Ckpt \<lparr>ckpt_net = cur_net s0,
                       ckpt_test_loss = avg (eval_meter E (cur_net s0) (test_batches E bs)),
                       ckpt_epoch = e\<rparr>)
       \<and> (e' \<noteq> e \<longrightarrow> ckpt_path e' \<noteq> ckpt_path e)"
proof -
  have r1: "py_range lo (e + 1) = py_range lo e @ [e]"
    using assms(2) by (simp add: py_range_def upto_rec2)
  obtain s0' where t: "test e E (test_batches E bs) (num_samples a) (save_dir a)
              (latent E e (num_samples a)) s0' = Inr s1"
    using epochs_loop_last [of E a bs w "py_range lo e" e s s1] assms(4) r1 by auto
  have p1: "fs s1 (ckpt_path e) =
           Some (Ckpt \<lparr>ckpt_net = cur_net s1,
                       ckpt_test_loss = avg (eval_meter E (cur_net s1) (test_batches E bs)),
                       ckpt_epoch = e\<rparr>)"
    using test_ckpt_written [OF assms(1), of e E "num_samples a" "save_dir a"
        "latent E e (num_samples a)" s0']
      test_frame(1) [of e E "test_batches E bs" "num_samples a" "save_dir a"
        "latent E e (num_samples a)" s0'] t
    by simp
  have r2: "py_range lo hi = py_range lo (e + 1) @ py_range (e + 1) hi"
    using assms(2,3) upto_split2 [of lo e "hi - 1"] by (simp add: py_range_def)
  have later: "\<And>e'. e' \<in> set (py_range (e + 1) hi) \<Longrightarrow>
      ckpt_path e \<noteq> ckpt_path e' \<and> ckpt_path e \<noteq> recon_path e'
      \<and> ckpt_path e \<noteq> sample_path (save_dir a) e'"
  proof -
    fix e' assume "e' \<in> set (py_range (e + 1) hi)"
    then have "e \<noteq> e'" by (simp add: py_range_def)
    then have "ckpt_path e \<noteq> ckpt_path e'"
      using ckpt_path_inj by blast
    then show "ckpt_path e \<noteq> ckpt_path e' \<and> ckpt_path e \<noteq> recon_path e'
      \<and> ckpt_path e \<noteq> sample_path (save_dir a) e'"
      using ckpt_not_recon ckpt_not_sample by simp
  qed
  have p2: "fs (state_of (epochs_loop E a bs w (py_range lo hi) s)) (ckpt_path e) =
      fs s1 (ckpt_path e)"
    using epochs_loop_fs_other [where E = E and bs = bs and w = w and s = s1, OF later] assms(4)
    by (simp add: r2 epochs_loop_append)
  have p3: "fs (state_of (test e E (test_batches E bs) n dir z s0)) (ckpt_path e) =
           Some (Ckpt \<lparr>ckpt_net = cur_net s0,
                       ckpt_test_loss = avg (eval_meter E (cur_net s0) (test_batches E bs)),
                       ckpt_epoch = e\<rparr>)"
    using test_ckpt_written [OF assms(1)] .
  have p4: "e' \<noteq> e \<longrightarrow> ckpt_path e' \<noteq> ckpt_path e"
    using ckpt_path_inj by blast
  from p1 p2 p3 p4 show ?thesis by blast
qed



text \<open>The equations that evaluate the script on the small instance.\<close>

lemmas toy_eval =
  py_range_def upto.simps train_def train_batch_def step_grads_def clip_grad_norm_def
  grad_norm_def toy_ext_def default_args_def initial_state_def lr_lambda_def test_def Let_def
  eval_meter_def meter_update_def meter_reset_def avg_def reconstruction_def sample_def
  sigmoid_batch_def



theorem checkpoint_every_epoch_witness:
  "test_batches toy_ext 4 \<noteq> [] \<and> (0::int) \<le> 0 \<and> (0::int) < 2
   \<and> epochs_loop toy_ext default_args 4 800 (py_range 0 (0 + 1)) (initial_state toy_ext toy_fs {}) =
       Inr (state_of (epochs_loop toy_ext default_args 4 800 (py_range 0 (0 + 1))
              (initial_state toy_ext toy_fs {})))
   \<and> fs (state_of (epochs_loop toy_ext default_args 4 800 (py_range 0 2)
              (initial_state toy_ext toy_fs {}))) (ckpt_path 0) =
       Some (Ckpt \<lparr>ckpt_net = - (7 / 5), ckpt_test_loss = 3 / 5, ckpt_epoch = 0\<rparr>)"
proof -
  let ?s = "initial_state toy_ext toy_fs {}"
  let ?r = "epochs_loop toy_ext default_args 4 800 (py_range 0 (0 + 1)) ?s"
  have h1: "test_batches toy_ext 4 \<noteq> []"
    by (simp add: toy_ext_def)
  have h2: "(0::int) \<le> 0" by simp
  have h3: "(0::int) < 2" by simp
  have isr: "\<exists>s1. ?r = Inr s1"
    by (simp add: toy_eval)
  then have h4: "?r = Inr (state_of ?r)"
    by auto
  have n: "cur_net (state_of ?r) = - (7 / 5)"
    by (simp add: toy_eval)
  have l: "avg (eval_meter toy_ext (- (7 / 5)) (test_batches toy_ext 4)) = 3 / 5"
    by (simp add: toy_eval)
  from checkpoint_every_epoch [OF h1 h2 h3 h4, of 0 "''samples''" "[]" ?s 0]
  have "fs (state_of (epochs_loop toy_ext default_args 4 800 (py_range 0 2) ?s)) (ckpt_path 0) =
       Some (Ckpt \<lparr>ckpt_net = - (7 / 5), ckpt_test_loss = 3 / 5, ckpt_epoch = 0\<rparr>)"
    by (simp only: n l)
  with h1 h2 h3 h4 show ?thesis by blast
qed

section \<open>The resume path is never written\<close>

lemma resume_checkpoint_fs:
  "resume_checkpoint E s = Inl (x, s') \<Longrightarrow> fs s' = fs s"
  "resume_checkpoint E s = Inr (i, s') \<Longrightarrow> fs s' = fs s"
  by (auto simp: resume_checkpoint_def Let_def split: if_splits option.splits file_content.splits)

lemma main_fs_other:
  assumes "\<And>e. p \<noteq> ckpt_path e \<and> p \<noteq> recon_path e \<and> p \<noteq> sample_path (save_dir a) e"
  shows "fs (state_of (main E a s)) p = fs s p"
proof -
  let ?s1 = "s\<lparr>loaded := vae_model_path a # loaded s\<rparr>"
  let ?s1' = "?s1\<lparr>cur_net := init_net E\<rparr>"
  have loop: "\<And>es s' w. fs (state_of (epochs_loop E a (scaled_batch_size a) w es s')) p = fs s' p"
    using epochs_loop_fs_other [where p = p and a = a] assms by blast
  show ?thesis
  proof (cases "fs s (vae_model_path a)")
    case None
    then show ?thesis by (simp add: main_def Let_def)
  next
    case (Some c)
    show ?thesis
    proof (cases c)
      case (Ckpt x)
      with Some show ?thesis by (simp add: main_def Let_def)
    next
      case (Image x)
      with Some show ?thesis by (simp add: main_def Let_def)
    next
      case VaeParams
      let ?r = "if resume a then resume_checkpoint E ?s1' else Inr (0, ?s1')"
      show ?thesis
      proof (cases ?r)
        case (Inl xs)
        obtain x s' where xs: "xs = (x, s')" by (cases xs)
        with Inl have "fs s' = fs s"
          using resume_checkpoint_fs(1) [of E ?s1' x s'] by (auto split: if_splits)
        with Inl xs Some VaeParams show ?thesis
          by (simp add: main_def Let_def)
      next
        case (Inr ir)
        obtain i s2 where ir: "ir = (i, s2)" by (cases ir)
        with Inr have f2: "fs s2 = fs s"
          using resume_checkpoint_fs(2) [of E ?s1' i s2] by (auto split: if_splits)
        show ?thesis
        proof (cases "lr_lambda (warm_up a * scaled_batch_size a) 0")
          case (Inl e)
          with Inr ir Some VaeParams f2 show ?thesis
            by (simp add: main_def Let_def)
        next
          case (Inr m)
          with \<open>?r = Inr ir\<close> ir Some VaeParams f2 loop show ?thesis
            by (simp add: main_def Let_def)
        qed
      qed
    qed
  qed
qed

text \<open>
  C9. The per-epoch checkpoint paths \<open>ckpts/flow++_<epoch>vae(n_d_n_l_64).pth.tar\<close> all
  differ from \<open>save/best.pth.tar\<close>, the one path the resume block hands to
  \<open>torch.load\<close>; neither a call of \<open>test\<close> nor a whole run of the script changes what
  that path holds, so nothing the evaluation loop writes is the file read on resume.
\<close>

theorem resume_path_never_written:
  "ckpt_path e \<noteq> ''save/best.pth.tar''
   \<and> fs (state_of (test e E tb n dir z s)) ''save/best.pth.tar'' = fs s ''save/best.pth.tar''
   \<and> fs (state_of (script E a f d)) ''save/best.pth.tar'' = f ''save/best.pth.tar''
   \<and> loaded (case resume_checkpoint E s of Inl (x, s') \<Rightarrow> s' | Inr (i, s') \<Rightarrow> s') =
       (if ''save'' \<in> dirs s then ''save/best.pth.tar'' # loaded s else loaded s)"
proof -
  have o: "\<And>e dir. ''save/best.pth.tar'' \<noteq> ckpt_path e \<and> ''save/best.pth.tar'' \<noteq> recon_path e
      \<and> ''save/best.pth.tar'' \<noteq> sample_path dir e"
    using ckpt_not_resume recon_not_resume sample_not_resume by metis
  have p1: "ckpt_path e \<noteq> ''save/best.pth.tar''"
    by (rule ckpt_not_resume)
  have p2: "fs (state_of (test e E tb n dir z s)) ''save/best.pth.tar'' = fs s ''save/best.pth.tar''"
    using o by (intro test_fs_other) auto
  have p3: "fs (state_of (script E a f d)) ''save/best.pth.tar'' = f ''save/best.pth.tar''"
    using main_fs_other [of "''save/best.pth.tar''" a E "initial_state E f d"] o
    by (simp add: script_def initial_state_def)
  have p4: "loaded (case resume_checkpoint E s of Inl (x, s') \<Rightarrow> s' | Inr (i, s') \<Rightarrow> s') =
       (if ''save'' \<in> dirs s then ''save/best.pth.tar'' # loaded s else loaded s)"
    by (simp add: resume_checkpoint_def Let_def split: option.splits file_content.splits)
  from p1 p2 p3 p4 show ?thesis by blast
qed

section \<open>The best loss\<close>

text \<open>
  C2. After an evaluation pass (one that had a batch) with average loss \<open>m\<close>,
  \<open>best_loss\<close> is \<open>m\<close> if \<open>m\<close> is strictly below the old value and is the old value
  otherwise: it changes exactly when \<open>m\<close> is strictly lower. The script starts it at 0,
  and in a run that does not resume the first call of \<open>test\<close> still finds it at 0, so
  that call changes it exactly when the average loss is negative.
\<close>

theorem best_loss_update:
  assumes "testloader \<noteq> []"
    and "m = avg (eval_meter E (cur_net s) testloader)"
    and "s' = state_of (test epoch E testloader n dir z s)"
  shows "(m < best_loss s \<longrightarrow> best_loss s' = m)
       \<and> (\<not> m < best_loss s \<longrightarrow> best_loss s' = best_loss s)
       \<and> (best_loss s' \<noteq> best_loss s \<longleftrightarrow> m < best_loss s)
       \<and> best_loss (initial_state E f d) = 0
       \<and> (best_loss s = 0 \<longrightarrow> (best_loss s' \<noteq> 0 \<longleftrightarrow> m < 0))
       \<and> (\<not> resume a \<and> f (vae_model_path a) = Some VaeParams \<and> warm_up_steps a \<noteq> 0
            \<and> 0 < num_epochs a \<longrightarrow>
          (\<exists>s1. best_loss s1 = 0
             \<and> script E a f d =
                 (case test 0 E (test_batches E (scaled_batch_size a)) (num_samples a) (save_dir a)
                         (latent E 0 (num_samples a)) s1 of
                    Inl r \<Rightarrow> Inl r
                  | Inr s2 \<Rightarrow>
                      epochs_loop E a (scaled_batch_size a) (warm_up_steps a)
                        (py_range 1 (num_epochs a)) s2)))"
proof -
  have b: "best_loss s' = (if m < best_loss s then m else best_loss s)"
    using test_best_loss [OF assms(1), of epoch E n dir z s] assms(2,3) by simp
  have p1: "m < best_loss s \<longrightarrow> best_loss s' = m"
    using b by simp
  have p2: "\<not> m < best_loss s \<longrightarrow> best_loss s' = best_loss s"
    using b by simp
  have p3: "best_loss s' \<noteq> best_loss s \<longleftrightarrow> m < best_loss s"
    using b by auto
  have p4: "best_loss (initial_state E f d) = 0"
    by (simp add: initial_state_def)
  have p5: "best_loss s = 0 \<longrightarrow> (best_loss s' \<noteq> 0 \<longleftrightarrow> m < 0)"
    using b by auto
  have p6: "\<not> resume a \<and> f (vae_model_path a) = Some VaeParams \<and> warm_up_steps a \<noteq> 0
            \<and> 0 < num_epochs a \<longrightarrow>
          (\<exists>s1. best_loss s1 = 0
             \<and> script E a f d =
                 (case test 0 E (test_batches E (scaled_batch_size a)) (num_samples a) (save_dir a)
                         (latent E 0 (num_samples a)) s1 of
                    Inl r \<Rightarrow> Inl r
                  | Inr s2 \<Rightarrow>
                      epochs_loop E a (scaled_batch_size a) (warm_up_steps a)
                        (py_range 1 (num_epochs a)) s2))"
  proof
    assume h: "\<not> resume a \<and> f (vae_model_path a) = Some VaeParams \<and> warm_up_steps a \<noteq> 0
            \<and> 0 < num_epochs a"
    let ?s0 = "(initial_state E f d)\<lparr>loaded := vae_model_path a # loaded (initial_state E f d),
        cur_net := init_net E, cur_opt := init_opt E, lr_mult := 0\<rparr>"
    have m: "script E a f d =
        epochs_loop E a (scaled_batch_size a) (warm_up_steps a) (py_range 0 (num_epochs a)) ?s0"
      unfolding script_def using h by (intro main_fresh) (simp_all add: initial_state_def)
    have r: "py_range 0 (num_epochs a) = 0 # py_range 1 (num_epochs a)"
      using h by (simp add: py_range_def upto_rec1)
    obtain s1 where s1: "train_loop E (max_grad_norm a) (warm_up_steps a)
        (train_batches E (scaled_batch_size a) 0) ?s0 = Inr s1"
      using train_loop_ok [of "warm_up_steps a"] h by blast
    have "best_loss s1 = best_loss ?s0"
      using train_loop_frame [of E "max_grad_norm a" "warm_up_steps a"
          "train_batches E (scaled_batch_size a) 0" ?s0] s1 by simp
    then have b0: "best_loss s1 = 0"
      by (simp add: initial_state_def)
    have "script E a f d =
                 (case test 0 E (test_batches E (scaled_batch_size a)) (num_samples a) (save_dir a)
                         (latent E 0 (num_samples a)) s1 of
                    Inl r \<Rightarrow> Inl r
                  | Inr s2 \<Rightarrow>
                      epochs_loop E a (scaled_batch_size a) (warm_up_steps a)
                        (py_range 1 (num_epochs a)) s2)"
      using s1 by (simp add: m r train_def)
    with b0 show "\<exists>s1. best_loss s1 = 0
             \<and> script E a f d =
                 (case test 0 E (test_batches E (scaled_batch_size a)) (num_samples a) (save_dir a)
                         (latent E 0 (num_samples a)) s1 of
                    Inl r \<Rightarrow> Inl r
                  | Inr s2 \<Rightarrow>
                      epochs_loop E a (scaled_batch_size a) (warm_up_steps a)
                        (py_range 1 (num_epochs a)) s2)"
      by blast
  qed
  from p1 p2 p3 p4 p5 p6 show ?thesis by blast
qed


theorem best_loss_update_witness:
  "[[[Val 0]]] \<noteq> []
   \<and> (- 3::real) =
       avg (eval_meter toy_ext (cur_net ((initial_state toy_ext toy_fs {})\<lparr>cur_net := - 5\<rparr>)) [[[Val 0]]])
   \<and> best_loss (state_of (test 0 toy_ext [[[Val 0]]] 64 ''samples'' [[Val 0]]
         ((initial_state toy_ext toy_fs {})\<lparr>cur_net := - 5\<rparr>))) = - 3
   \<and> best_loss (state_of (test 0 toy_ext [[[Val 0]]] 64 ''samples'' [[Val 0]]
         (initial_state toy_ext toy_fs {}))) = 0
   \<and> \<not> resume default_args \<and> toy_fs (vae_model_path default_args) = Some VaeParams
   \<and> warm_up_steps default_args \<noteq> 0 \<and> 0 < num_epochs default_args
   \<and> (\<exists>s1. best_loss s1 = 0
         \<and> script toy_ext default_args toy_fs {} =
             (case test 0 toy_ext (test_batches toy_ext (scaled_batch_size default_args))
                     (num_samples default_args) (save_dir default_args)
                     (latent toy_ext 0 (num_samples default_args)) s1 of
                Inl r \<Rightarrow> Inl r
              | Inr s2 \<Rightarrow>
                  epochs_loop toy_ext default_args (scaled_batch_size default_args)
                    (warm_up_steps default_args) (py_range 1 (num_epochs default_args)) s2))"
proof -
  let ?s = "(initial_state toy_ext toy_fs {})\<lparr>cur_net := - 5\<rparr>"
  let ?t = "initial_state toy_ext toy_fs {}"
  have h1: "[[[Val 0]]] \<noteq> []" by simp
  have h2: "(- 3::real) = avg (eval_meter toy_ext (cur_net ?s) [[[Val 0]]])"
    by (simp add: toy_eval)
  have h2': "(2::real) = avg (eval_meter toy_ext (cur_net ?t) [[[Val 0]]])"
    by (simp add: toy_eval)
  have b: "best_loss ?s = 0" "best_loss ?t = 0"
    by (simp_all add: initial_state_def)
  have f: "\<not> resume default_args \<and> toy_fs (vae_model_path default_args) = Some VaeParams
      \<and> warm_up_steps default_args \<noteq> 0 \<and> 0 < num_epochs default_args"
    by (simp add: default_args_def toy_fs_def warm_up_steps_def scaled_batch_size_def)
  note u = best_loss_update [OF h1 h2 refl, of 0 64 "''samples''" "[[Val 0]]" toy_fs "{}" default_args]
  have "best_loss (state_of (test 0 toy_ext [[[Val 0]]] 64 ''samples'' [[Val 0]] ?s)) = - 3"
    using u b(1) by simp
  moreover have "best_loss (state_of (test 0 toy_ext [[[Val 0]]] 64 ''samples'' [[Val 0]] ?t)) = 0"
    using best_loss_update [OF h1 h2' refl, of 0 64 "''samples''" "[[Val 0]]" toy_fs "{}" default_args]
      b(2)
    by simp
  moreover have "\<exists>s1. best_loss s1 = 0
         \<and> script toy_ext default_args toy_fs {} =
             (case test 0 toy_ext (test_batches toy_ext (scaled_batch_size default_args))
                     (num_samples default_args) (save_dir default_args)
                     (latent toy_ext 0 (num_samples default_args)) s1 of
                Inl r \<Rightarrow> Inl r
              | Inr s2 \<Rightarrow>
                  epochs_loop toy_ext default_args (scaled_batch_size default_args)
                    (warm_up_steps default_args) (py_range 1 (num_epochs default_args)) s2)"
    using u f by blast
  ultimately show ?thesis using h1 h2 f by blast
qed

section \<open>Pixel range of the outputs\<close>

lemma sigmoid_range: "sigmoid v = NaN \<or> in_unit (sigmoid v)"
proof (cases v)
  case (Val x)
  have "0 < exp (- x)" by simp
  then have "1 \<le> 1 + exp (- x)" by simp
  then have "0 \<le> 1 / (1 + exp (- x)) \<and> 1 / (1 + exp (- x)) \<le> 1"
    by (simp add: divide_le_eq_1 add_pos_pos)
  with Val show ?thesis by simp
qed simp_all

lemma sigmoid_nan: "sigmoid v = NaN \<longleftrightarrow> v = NaN"
  by (cases v) simp_all

lemma sigmoid_batch_range:
  "img \<in> set (sigmoid_batch b) \<Longrightarrow> p \<in> set img \<Longrightarrow> p = NaN \<or> in_unit p"
proof -
  assume "img \<in> set (sigmoid_batch b)" and "p \<in> set img"
  then obtain v where "p = sigmoid v"
    by (auto simp: sigmoid_batch_def)
  then show ?thesis
    using sigmoid_range [of v] by simp
qed

lemma sigmoid_batch_no_nan:
  assumes "\<forall>img \<in> set b. NaN \<notin> set img" and "img \<in> set (sigmoid_batch b)" and "p \<in> set img"
  shows "in_unit p"
proof -
  from assms(2) obtain src where src: "src \<in> set b" "img = map sigmoid src"
    by (auto simp: sigmoid_batch_def)
  with assms(3) obtain v where v: "v \<in> set src" "p = sigmoid v"
    by auto
  with assms(1) src(1) have "v \<noteq> NaN" by auto
  then have "p \<noteq> NaN"
    using v(2) sigmoid_nan by simp
  then show ?thesis
    using sigmoid_range [of v] v(2) by simp
qed

text \<open>
  C6, as stated, fails: the outputs are the sigmoid of the inverse pass, and the sigmoid
  of NaN is NaN. A flow whose inverse pass returns NaN gives samples and reconstructions
  whose elements are NaN, which is no value between 0 and 1.
\<close>

theorem nan_output_counterexample:
  "sample nan_ext 0 [[Val 0]] = [[NaN]] \<and> reconstruction nan_ext 0 [[Val 0]] = [[NaN]]
   \<and> \<not> in_unit NaN"
  by (simp add: sample_def reconstruction_def sigmoid_batch_def nan_ext_def toy_ext_def)

text \<open>
  C6, amended. What \<open>sample\<close> returns and the reconstruction images of \<open>test\<close> are the
  sigmoid, element by element, of the flow's inverse pass: every element is NaN or a pixel
  value between 0 and 1, and when the inverse pass yields no NaN (infinities allowed)
  every element is a pixel value between 0 and 1, whatever the flow's parameters.
\<close>

theorem outputs_in_unit_interval:
  "(\<forall>img \<in> set (sample E n z). \<forall>p \<in> set img. p = NaN \<or> in_unit p)
   \<and> (\<forall>img \<in> set (reconstruction E n x). \<forall>p \<in> set img. p = NaN \<or> in_unit p)
   \<and> ((\<forall>img \<in> set (reverse E n z). NaN \<notin> set img) \<longrightarrow>
        (\<forall>img \<in> set (sample E n z). \<forall>p \<in> set img. in_unit p))
   \<and> ((\<forall>img \<in> set (reverse E n x). NaN \<notin> set img) \<longrightarrow>
        (\<forall>img \<in> set (reconstruction E n x). \<forall>p \<in> set img. in_unit p))
   \<and> sample E n z = map (map sigmoid) (reverse E n z)
   \<and> reconstruction E n x = map (map sigmoid) (reverse E n x)"
proof -
  have p1: "\<forall>img \<in> set (sample E n z). \<forall>p \<in> set img. p = NaN \<or> in_unit p"
    using sigmoid_batch_range by (auto simp: sample_def)
  have p2: "\<forall>img \<in> set (reconstruction E n x). \<forall>p \<in> set img. p = NaN \<or> in_unit p"
    using sigmoid_batch_range by (auto simp: reconstruction_def)
  have p3: "(\<forall>img \<in> set (reverse E n z). NaN \<notin> set img) \<longrightarrow>
        (\<forall>img \<in> set (sample E n z). \<forall>p \<in> set img. in_unit p)"
    using sigmoid_batch_no_nan [of "reverse E n z"] by (auto simp: sample_def)
  have p4: "(\<forall>img \<in> set (reverse E n x). NaN \<notin> set img) \<longrightarrow>
        (\<forall>img \<in> set (reconstruction E n x). \<forall>p \<in> set img. in_unit p)"
    using sigmoid_batch_no_nan [of "reverse E n x"] by (auto simp: reconstruction_def)
  have p5: "sample E n z = map (map sigmoid) (reverse E n z)"
    by (simp add: sample_def sigmoid_batch_def)
  have p6: "reconstruction E n x = map (map sigmoid) (reverse E n x)"
    by (simp add: reconstruction_def sigmoid_batch_def)
  from p1 p2 p3 p4 p5 p6 show ?thesis by blast
qed

theorem outputs_in_unit_interval_witness:
  "reverse toy_ext 0 [[Val 0, PosInf, NegInf]] = [[Val 0, PosInf, NegInf]]
   \<and> sample toy_ext 0 [[Val 0, PosInf, NegInf]] = [[Val (1 / 2), Val 1, Val 0]]
   \<and> reconstruction toy_ext 0 [[Val 0, PosInf, NegInf]] = [[Val (1 / 2), Val 1, Val 0]]
   \<and> in_unit (Val (1 / 2)) \<and> in_unit (Val 1) \<and> in_unit (Val 0)"
proof -
  let ?z = "[[Val 0, PosInf, NegInf]]"
  have r: "reverse toy_ext 0 ?z = ?z"
    by (simp add: toy_ext_def)
  then have h: "\<forall>img \<in> set (reverse toy_ext 0 ?z). NaN \<notin> set img"
    by simp
  note u = outputs_in_unit_interval [of toy_ext 0 ?z ?z]
  have a: "sample toy_ext 0 ?z = [[Val (1 / 2), Val 1, Val 0]]"
    using u r by simp
  have b: "reconstruction toy_ext 0 ?z = [[Val (1 / 2), Val 1, Val 0]]"
    using u r by simp
  from u h have "\<forall>img \<in> set (sample toy_ext 0 ?z). \<forall>p \<in> set img. in_unit p"
    by blast
  then have "in_unit (Val (1 / 2)) \<and> in_unit (Val 1) \<and> in_unit (Val 0)"
    by (simp add: a)
  with r a b show ?thesis by blast
qed

section \<open>Gradient clipping\<close>

lemma sum_squares_scaled:
  "sum_list (map (\<lambda>x. (x * c) ^ 2) g) = (c::real) ^ 2 * sum_list (map (\<lambda>x. x ^ 2) g)"
  by (induction g) (simp_all add: power_mult_distrib algebra_simps)

lemma grad_norm_scaled:
  assumes "0 \<le> c"
  shows "grad_norm (map (\<lambda>x. x * c) g) = c * grad_norm g"
proof -
  have "grad_norm (map (\<lambda>x. x * c) g) = sqrt (sum_list (map (\<lambda>x. (x * c) ^ 2) g))"
    by (simp add: grad_norm_def comp_def)
  also have "\<dots> = sqrt (c ^ 2 * sum_list (map (\<lambda>x. x ^ 2) g))"
    by (simp only: sum_squares_scaled)
  also have "\<dots> = c * grad_norm g"
    using assms by (simp add: grad_norm_def real_sqrt_mult)
  finally show ?thesis .
qed

lemma clip_grad_norm_exceeding:
  assumes "0 < T" and "T < grad_norm g"
  shows "clip_grad_norm g T = map (\<lambda>v. v * (T / grad_norm g)) g"
    and "grad_norm (clip_grad_norm g T) = T"
proof -
  show c: "clip_grad_norm g T = map (\<lambda>v. v * (T / grad_norm g)) g"
    using assms by (simp add: clip_grad_norm_def)
  have pos: "0 < grad_norm g" using assms by simp
  then have "0 \<le> T / grad_norm g"
    using assms(1) by simp
  then have "grad_norm (map (\<lambda>x. x * (T / grad_norm g)) g) = T / grad_norm g * grad_norm g"
    by (rule grad_norm_scaled)
  also have "\<dots> = T"
    using pos by simp
  finally show "grad_norm (clip_grad_norm g T) = T"
    by (simp add: c)
qed

lemma clip_grad_norm_within: "grad_norm g \<le> T \<Longrightarrow> clip_grad_norm g T = g"
  by (simp add: clip_grad_norm_def)

text \<open>
  C5. In a training step with threshold \<open>T\<close>, when \<open>T > 0\<close> the gradients handed to the
  optimizer are the clipped ones: those of the backward pass, unchanged, if their norm is
  at most \<open>T\<close>, and otherwise scaled by \<open>T\<close> over their norm, which brings the norm to
  exactly \<open>T\<close>; either way the norm is at most \<open>T\<close>. When \<open>T \<le> 0\<close> the clipping is
  skipped and they are the gradients of the backward pass, unchanged. The optimizer step
  of the batch is taken on exactly these gradients.
\<close>

theorem clipping_guard:
  "(0 < T \<longrightarrow> grad_norm (step_grads E T n x) \<le> T)
   \<and> (0 < T \<and> grad_norm (grad_of E n x) \<le> T \<longrightarrow> step_grads E T n x = grad_of E n x)
   \<and> (0 < T \<and> T < grad_norm (grad_of E n x) \<longrightarrow>
        step_grads E T n x = map (\<lambda>v. v * (T / grad_norm (grad_of E n x))) (grad_of E n x)
        \<and> grad_norm (step_grads E T n x) = T)
   \<and> (T \<le> 0 \<longrightarrow> step_grads E T n x = grad_of E n x)
   \<and> (cur_opt (state_of (train_batch E T w x s)), cur_net (state_of (train_batch E T w x s))) =
       opt_step E (cur_opt s) (lr_mult s) (cur_net s) (step_grads E T (cur_net s) x)"
proof -
  let ?g = "grad_of E n x"
  have p2: "0 < T \<and> grad_norm ?g \<le> T \<longrightarrow> step_grads E T n x = ?g"
    using clip_grad_norm_within by (simp add: step_grads_def)
  have p3: "0 < T \<and> T < grad_norm ?g \<longrightarrow>
        step_grads E T n x = map (\<lambda>v. v * (T / grad_norm ?g)) ?g
        \<and> grad_norm (step_grads E T n x) = T"
    using clip_grad_norm_exceeding [of T ?g] by (simp add: step_grads_def)
  have p1: "0 < T \<longrightarrow> grad_norm (step_grads E T n x) \<le> T"
    using p2 p3 by (cases "grad_norm ?g \<le> T") auto
  have p4: "T \<le> 0 \<longrightarrow> step_grads E T n x = ?g"
    by (simp add: step_grads_def)
  have p5: "(cur_opt (state_of (train_batch E T w x s)), cur_net (state_of (train_batch E T w x s))) =
       opt_step E (cur_opt s) (lr_mult s) (cur_net s) (step_grads E T (cur_net s) x)"
    by (simp add: train_batch_def Let_def split: prod.splits sum.splits)
  from p1 p2 p3 p4 p5 show ?thesis by blast
qed

theorem clipping_guard_witness:
  "grad_of toy_ext 0 [[Val 0]] = [3, 4] \<and> grad_norm (grad_of toy_ext 0 [[Val 0]]) = 5
   \<and> (0::real) < 1 \<and> (1::real) < 5
   \<and> step_grads toy_ext 1 0 [[Val 0]] = [3 / 5, 4 / 5]
   \<and> grad_norm (step_grads toy_ext 1 0 [[Val 0]]) = 1
   \<and> (0::real) < 10 \<and> (5::real) \<le> 10 \<and> step_grads toy_ext 10 0 [[Val 0]] = [3, 4]
   \<and> (- 1::real) \<le> 0 \<and> step_grads toy_ext (- 1) 0 [[Val 0]] = [3, 4]"
proof -
  let ?s = "initial_state toy_ext toy_fs {}"
  have g: "grad_of toy_ext 0 [[Val 0]] = [3, 4]"
    by (simp add: toy_ext_def)
  have n: "grad_norm (grad_of toy_ext 0 [[Val 0]]) = 5"
    by (simp add: grad_norm_def toy_ext_def)
  have "(0::real) < 1 \<and> 1 < grad_norm (grad_of toy_ext 0 [[Val 0]])"
    by (simp add: n)
  with clipping_guard [of 1 toy_ext 0 "[[Val 0]]" 800 ?s]
  have a': "step_grads toy_ext 1 0 [[Val 0]] =
        map (\<lambda>v. v * (1 / grad_norm (grad_of toy_ext 0 [[Val 0]]))) (grad_of toy_ext 0 [[Val 0]])"
      "grad_norm (step_grads toy_ext 1 0 [[Val 0]]) = 1"
    by blast+
  have a: "step_grads toy_ext 1 0 [[Val 0]] = [3 / 5, 4 / 5]
      \<and> grad_norm (step_grads toy_ext 1 0 [[Val 0]]) = 1"
    using a'(2) by (simp add: a'(1) n) (simp add: g)
  have b: "step_grads toy_ext 10 0 [[Val 0]] = [3, 4]"
    using clipping_guard [of 10 toy_ext 0 "[[Val 0]]" 800 ?s] g n by simp
  have c: "step_grads toy_ext (- 1) 0 [[Val 0]] = [3, 4]"
    using clipping_guard [of "- 1" toy_ext 0 "[[Val 0]]" 800 ?s] g by simp
  have o: "(0::real) < 1" "(1::real) < 5" "(0::real) < 10" "(5::real) \<le> 10" "(- 1::real) \<le> 0"
    by simp_all
  from g n a b c o show ?thesis by blast
qed

end
